theory Spec2Isabelle
  imports Main "HOL-Library.Word" "HOL-Library.AList"
begin

chapter \<open>Model\<close>

section \<open>JavaScript values, buffers and errors\<close>

text \<open>
  A \<open>Buffer\<close> is a list of bytes. A JavaScript string is represented by the list of
  its UTF-8 code units (HOL characters are bytes), so that encoding a string as UTF-8
  and decoding it again are the two directions of one bijection.
\<close>

type_synonym byte = "8 word"
type_synonym buffer = "byte list"

definition byte_of_char :: "char \<Rightarrow> byte" where
  "byte_of_char c = of_nat (of_char c)"

definition char_of_byte :: "byte \<Rightarrow> char" where
  "char_of_byte w = char_of (unat w)"

definition utf8_encode :: "string \<Rightarrow> buffer" where
  "utf8_encode s = map byte_of_char s"

definition utf8_decode :: "buffer \<Rightarrow> string" where
  "utf8_decode bs = map char_of_byte bs"

text \<open>Plain data as \<open>JSON.parse\<close> produces it and as object literals build it. An
  object keeps its fields in insertion order.\<close>

datatype jsval =
    JUndefined
  | JNull
  | JBool bool
  | JNum int
  | JStr string
  | JArr "jsval list"
  | JObj "(string \<times> jsval) list"

text \<open>A thrown exception: its class and its message.\<close>

datatype js_error =
    Error string
  | RangeError string
  | TypeError string
  | SyntaxError string

text \<open>Decimal rendering of a number inside a template string.\<close>

fun show_nat :: "nat \<Rightarrow> string" where
  "show_nat n =
     (if n < 10 then [char_of (48 + n)]
      else show_nat (n div 10) @ [char_of (48 + n mod 10)])"

fun show_int :: "int \<Rightarrow> string" where
  "show_int i = (if i < 0 then CHR ''-'' # show_nat (nat (- i)) else show_nat (nat i))"

text \<open>\<open>s.startsWith(prefix)\<close>\<close>

fun starts_with :: "string \<Rightarrow> string \<Rightarrow> bool" where
  "starts_with s [] = True"
| "starts_with [] (c # cs) = False"
| "starts_with (x # xs) (c # cs) = (x = c \<and> starts_with xs cs)"

section \<open>The primitives of the platform\<close>

text \<open>
  \<open>utils/encryption.js\<close> is written against Node's \<open>crypto\<close>, \<open>Buffer\<close> and \<open>JSON\<close>.
  These are not part of the repository; the model takes the functions the code reaches
  as a record:
  \<^item> \<open>hmac_sha256 key data\<close>: the digest of \<open>crypto.createHmac('sha256', key)\<close>;
  \<^item> \<open>base64_encode\<close>, \<open>base64_decode\<close>: \<open>buf.toString('base64')\<close> and
    \<open>Buffer.from(s, 'base64')\<close>;
  \<^item> \<open>json_stringify\<close>, \<open>json_parse\<close>: \<open>JSON.stringify\<close> and \<open>JSON.parse\<close>.

  Node's \<open>crypto\<close> module has no member \<open>createCipherGCM\<close> and no member
  \<open>createDecipherGCM\<close> (a cipher with an IV is made by \<open>createCipheriv\<close>, a decipher by
  \<open>createDecipheriv\<close>). Reading either name gives \<open>undefined\<close>, and calling it throws a
  \<open>TypeError\<close>.
\<close>

record crypto_lib =
  hmac_sha256 :: "buffer \<Rightarrow> buffer \<Rightarrow> buffer"
  base64_encode :: "buffer \<Rightarrow> string"
  base64_decode :: "string \<Rightarrow> buffer"
  json_stringify :: "jsval \<Rightarrow> string"
  json_parse :: "string \<Rightarrow> js_error + jsval"

section \<open>Encryption utilities (\<open>utils/encryption.js\<close>)\<close>

definition KEY_LENGTH :: nat where
  "KEY_LENGTH = 32"

definition IV_LENGTH :: nat where
  "IV_LENGTH = 16"

definition TAG_LENGTH :: nat where
  "TAG_LENGTH = 16"

text \<open>A key argument is a base64 string or a buffer:
  \<open>typeof key === 'string' ? Buffer.from(key, 'base64') : key\<close>.\<close>

datatype key_arg = KeyString string | KeyBuffer buffer

definition key_buffer :: "crypto_lib \<Rightarrow> key_arg \<Rightarrow> buffer" where
  "key_buffer L key = (case key of KeyString s \<Rightarrow> base64_decode L s | KeyBuffer b \<Rightarrow> b)"

definition invalid_key_length :: "nat \<Rightarrow> js_error" where
  "invalid_key_length n =
     Error (''Invalid key length. Expected '' @ show_nat KEY_LENGTH @ '' bytes, got '' @ show_nat n)"

text \<open>The body of the \<open>try\<close> block of \<open>encrypt\<close>. The argument \<open>iv\<close> is the value
  returned by \<open>crypto.randomBytes(IV_LENGTH)\<close>. The statement after it,
  \<open>const cipher = crypto.createCipherGCM(ALGORITHM, encryptionKey, iv)\<close>, calls
  \<open>undefined\<close>: it throws, and no later statement of the block is reached.\<close>

definition encrypt_try ::
  "crypto_lib \<Rightarrow> buffer \<Rightarrow> string \<Rightarrow> key_arg \<Rightarrow> string option \<Rightarrow> js_error + string" where
  "encrypt_try L iv plaintext key associatedData =
     (let encryptionKey = key_buffer L key in
      if length encryptionKey \<noteq> KEY_LENGTH
      then Inl (invalid_key_length (length encryptionKey))
      else Inl (TypeError ''crypto.createCipherGCM is not a function''))"

text \<open>\<open>catch (error) { console.error(...); throw new Error('Encryption failed'); }\<close>\<close>

definition encrypt ::
  "crypto_lib \<Rightarrow> buffer \<Rightarrow> string \<Rightarrow> key_arg \<Rightarrow> string option \<Rightarrow> js_error + string" where
  "encrypt L iv plaintext key associatedData =
     (case encrypt_try L iv plaintext key associatedData of
        Inl e \<Rightarrow> Inl (Error ''Encryption failed'')
      | Inr result \<Rightarrow> Inr result)"

text \<open>The body of the \<open>try\<close> block of \<open>decrypt\<close>. Decoding the record and slicing it
  into IV, ciphertext and tag throw nothing; the statement after them,
  \<open>const decipher = crypto.createDecipherGCM(ALGORITHM, encryptionKey, iv)\<close>, calls
  \<open>undefined\<close>: it throws, and no later statement of the block is reached.\<close>

definition decrypt_try ::
  "crypto_lib \<Rightarrow> string \<Rightarrow> key_arg \<Rightarrow> string option \<Rightarrow> js_error + string" where
  "decrypt_try L encryptedData key associatedData =
     (let encryptionKey = key_buffer L key in
      if length encryptionKey \<noteq> KEY_LENGTH
      then Inl (invalid_key_length (length encryptionKey))
      else Inl (TypeError ''crypto.createDecipherGCM is not a function''))"

text \<open>\<open>catch (error) { console.error(...); throw new Error('Decryption failed'); }\<close>\<close>

definition decrypt ::
  "crypto_lib \<Rightarrow> string \<Rightarrow> key_arg \<Rightarrow> string option \<Rightarrow> js_error + string" where
  "decrypt L encryptedData key associatedData =
     (case decrypt_try L encryptedData key associatedData of
        Inl e \<Rightarrow> Inl (Error ''Decryption failed'')
      | Inr plaintext \<Rightarrow> Inr plaintext)"

text \<open>\<open>crypto.createHmac('sha256', key)\<close> takes a string key as its UTF-8 bytes.\<close>

definition hmac_key :: "key_arg \<Rightarrow> buffer" where
  "hmac_key key = (case key of KeyString s \<Rightarrow> utf8_encode s | KeyBuffer b \<Rightarrow> b)"

definition createHMAC :: "crypto_lib \<Rightarrow> string \<Rightarrow> key_arg \<Rightarrow> string" where
  "createHMAC L data key = base64_encode L (hmac_sha256 L (hmac_key key) (utf8_encode data))"

text \<open>\<open>crypto.timingSafeEqual(a, b)\<close> throws a \<open>RangeError\<close> when the two buffers
  differ in length.\<close>

definition timingSafeEqual :: "buffer \<Rightarrow> buffer \<Rightarrow> js_error + bool" where
  "timingSafeEqual a b =
     (if length a \<noteq> length b
      then Inl (RangeError ''Input buffers must have the same byte length'')
      else Inr (a = b))"

definition verifyHMAC :: "crypto_lib \<Rightarrow> string \<Rightarrow> string \<Rightarrow> key_arg \<Rightarrow> js_error + bool" where
  "verifyHMAC L data hmacValue key =
     (let computedHmac = createHMAC L data key
      in timingSafeEqual (base64_decode L hmacValue) (base64_decode L computedHmac))"

text \<open>Property access \<open>v.name\<close>: it throws on \<open>null\<close> and \<open>undefined\<close>, reads the
  field of an object, and is \<open>undefined\<close> where there is no such field.\<close>

fun lookup_field :: "(string \<times> jsval) list \<Rightarrow> string \<Rightarrow> jsval" where
  "lookup_field [] name = JUndefined"
| "lookup_field ((k, v) # kvs) name = (if k = name then v else lookup_field kvs name)"

fun js_get :: "jsval \<Rightarrow> string \<Rightarrow> js_error + jsval" where
  "js_get JNull name = Inl (TypeError ''Cannot read properties of null'')"
| "js_get JUndefined name = Inl (TypeError ''Cannot read properties of undefined'')"
| "js_get (JObj kvs) name = Inr (lookup_field kvs name)"
| "js_get v name = Inr JUndefined"

record encrypted_phi =
  encrypted_data :: string
  integrity_hash :: string
  encrypted_at :: string

text \<open>\<open>encryptPHI\<close>; \<open>timestamp\<close> is \<open>new Date().toISOString()\<close>.\<close>

definition encryptPHI ::
  "crypto_lib \<Rightarrow> buffer \<Rightarrow> string \<Rightarrow> jsval \<Rightarrow> key_arg \<Rightarrow> js_error + encrypted_phi" where
  "encryptPHI L iv timestamp phiData masterKey =
     (let dataWithMetadata =
            JObj [(''data'', phiData), (''encrypted_at'', JStr timestamp), (''version'', JStr ''1.0'')];
          serializedData = json_stringify L dataWithMetadata
      in case encrypt L iv serializedData masterKey (Some timestamp) of
           Inl e \<Rightarrow> Inl e
         | Inr encryptedData \<Rightarrow>
             Inr \<lparr>encrypted_data = encryptedData,
                  integrity_hash = createHMAC L encryptedData masterKey,
                  encrypted_at = timestamp\<rparr>)"

definition decryptPHI :: "crypto_lib \<Rightarrow> encrypted_phi \<Rightarrow> key_arg \<Rightarrow> js_error + jsval" where
  "decryptPHI L encryptedPHI masterKey =
     (case verifyHMAC L (encrypted_data encryptedPHI) (integrity_hash encryptedPHI) masterKey of
        Inl e \<Rightarrow> Inl e
      | Inr ok \<Rightarrow>
          if \<not> ok then Inl (Error ''Data integrity check failed'')
          else
            (case decrypt L (encrypted_data encryptedPHI) masterKey (Some (encrypted_at encryptedPHI)) of
               Inl e \<Rightarrow> Inl e
             | Inr decryptedData \<Rightarrow>
                 (case json_parse L decryptedData of
                    Inl e \<Rightarrow> Inl e
                  | Inr parsedData \<Rightarrow>
                      (case js_get parsedData ''encrypted_at'' of
                         Inl e \<Rightarrow> Inl e
                       | Inr recovered \<Rightarrow>
                           if recovered \<noteq> JStr (encrypted_at encryptedPHI)
                           then Inl (Error ''Metadata mismatch detected'')
                           else js_get parsedData ''data''))))"

subsection \<open>What is assumed of the primitives\<close>

text \<open>
  Base64 decoding inverts base64 encoding; an HMAC-SHA-256 digest has 32 bytes.
\<close>

definition crypto_laws :: "crypto_lib \<Rightarrow> bool" where
  "crypto_laws L \<longleftrightarrow>
     (\<forall>b. base64_decode L (base64_encode L b) = b) \<and>
     (\<forall>k d. length (hmac_sha256 L k d) = 32)"

subsection \<open>An instance of the primitives\<close>

text \<open>
  A small instance of the interface, with none of the secrecy of the real primitives:
  it shows that the assumptions above can be met together, and lets the definitions be
  run on concrete inputs.
\<close>

text \<open>A JSON printer and a parser for what it prints (no white space, integers only).\<close>

fun quote_chars :: "string \<Rightarrow> string" where
  "quote_chars [] = []"
| "quote_chars (c # cs) =
     (if c = CHR 0x22 \<or> c = CHR 0x5C then CHR 0x5C # c # quote_chars cs else c # quote_chars cs)"

definition quote :: "string \<Rightarrow> string" where
  "quote s = CHR 0x22 # quote_chars s @ [CHR 0x22]"

fun demo_stringify :: "jsval \<Rightarrow> string"
  and demo_stringify_elems :: "jsval list \<Rightarrow> string"
  and demo_stringify_fields :: "bool \<Rightarrow> (string \<times> jsval) list \<Rightarrow> string" where
  "demo_stringify JUndefined = ''null''"
| "demo_stringify JNull = ''null''"
| "demo_stringify (JBool b) = (if b then ''true'' else ''false'')"
| "demo_stringify (JNum i) = show_int i"
| "demo_stringify (JStr s) = quote s"
| "demo_stringify (JArr vs) = CHR ''['' # demo_stringify_elems vs @ '']''"
| "demo_stringify (JObj kvs) = CHR ''{'' # demo_stringify_fields True kvs @ ''}''"
| "demo_stringify_elems [] = []"
| "demo_stringify_elems (v # vs) =
     demo_stringify v @ (if vs = [] then [] else CHR '','' # demo_stringify_elems vs)"
| "demo_stringify_fields first [] = []"
| "demo_stringify_fields first ((k, v) # kvs) =
     (if v = JUndefined then demo_stringify_fields first kvs
      else (if first then [] else '','') @ quote k @ '':'' @ demo_stringify v @
           demo_stringify_fields False kvs)"

fun parse_string :: "string \<Rightarrow> string \<Rightarrow> (string \<times> string) option" where
  "parse_string acc [] = None"
| "parse_string acc (c # cs) =
     (if c = CHR 0x22 then Some (rev acc, cs)
      else if c = CHR 0x5C then
        (case cs of [] \<Rightarrow> None | d # ds \<Rightarrow> parse_string (d # acc) ds)
      else parse_string (c # acc) cs)"

definition is_digit :: "char \<Rightarrow> bool" where
  "is_digit c \<longleftrightarrow> 48 \<le> (of_char c :: nat) \<and> (of_char c :: nat) \<le> 57"

definition digits_value :: "string \<Rightarrow> nat" where
  "digits_value ds = foldl (\<lambda>n c. 10 * n + (of_char c - 48)) 0 ds"

definition parse_number :: "string \<Rightarrow> (jsval \<times> string) option" where
  "parse_number s =
     (let neg = (s \<noteq> [] \<and> hd s = CHR ''-'');
          t = (if neg then tl s else s);
          ds = takeWhile is_digit t
      in if ds = [] then None
         else Some (JNum (if neg then - int (digits_value ds) else int (digits_value ds)),
                    dropWhile is_digit t))"

fun parse_value :: "nat \<Rightarrow> string \<Rightarrow> (jsval \<times> string) option"
  and parse_elems :: "nat \<Rightarrow> string \<Rightarrow> (jsval list \<times> string) option"
  and parse_fields :: "nat \<Rightarrow> string \<Rightarrow> ((string \<times> jsval) list \<times> string) option" where
  "parse_value 0 s = None"
| "parse_value (Suc n) s =
     (if starts_with s ''null'' then Some (JNull, drop 4 s)
      else if starts_with s ''true'' then Some (JBool True, drop 4 s)
      else if starts_with s ''false'' then Some (JBool False, drop 5 s)
      else if starts_with s [CHR 0x22] then
        (case parse_string [] (drop 1 s) of
           None \<Rightarrow> None
         | Some (str, rest) \<Rightarrow> Some (JStr str, rest))
      else if starts_with s ''[]'' then Some (JArr [], drop 2 s)
      else if starts_with s ''['' then
        (case parse_elems n (drop 1 s) of
           None \<Rightarrow> None
         | Some (vs, rest) \<Rightarrow> Some (JArr vs, rest))
      else if starts_with s ''{}'' then Some (JObj [], drop 2 s)
      else if starts_with s ''{'' then
        (case parse_fields n (drop 1 s) of
           None \<Rightarrow> None
         | Some (kvs, rest) \<Rightarrow> Some (JObj kvs, rest))
      else parse_number s)"
| "parse_elems 0 s = None"
| "parse_elems (Suc n) s =
     (case parse_value n s of
        None \<Rightarrow> None
      | Some (v, rest) \<Rightarrow>
          if starts_with rest '']'' then Some ([v], drop 1 rest)
          else if starts_with rest '','' then
            (case parse_elems n (drop 1 rest) of
               None \<Rightarrow> None
             | Some (vs, rest') \<Rightarrow> Some (v # vs, rest'))
          else None)"
| "parse_fields 0 s = None"
| "parse_fields (Suc n) s =
     (if \<not> starts_with s [CHR 0x22] then None
      else
        case parse_string [] (drop 1 s) of
          None \<Rightarrow> None
        | Some (k, rest) \<Rightarrow>
            if \<not> starts_with rest '':'' then None
            else
              (case parse_value n (drop 1 rest) of
                 None \<Rightarrow> None
               | Some (v, rest') \<Rightarrow>
                   if starts_with rest' ''}'' then Some ([(k, v)], drop 1 rest')
                   else if starts_with rest' '','' then
                     (case parse_fields n (drop 1 rest') of
                        None \<Rightarrow> None
                      | Some (kvs, rest'') \<Rightarrow> Some ((k, v) # kvs, rest''))
                   else None))"

definition demo_parse :: "string \<Rightarrow> js_error + jsval" where
  "demo_parse s =
     (case parse_value (Suc (length s)) s of
        Some (v, []) \<Rightarrow> Inr v
      | _ \<Rightarrow> Inl (SyntaxError ''Unexpected token in JSON''))"

definition demo_lib :: crypto_lib where
  "demo_lib =
     \<lparr>hmac_sha256 = (\<lambda>k d. replicate 31 0 @ [sum_list k + sum_list d]),
      base64_encode = utf8_decode,
      base64_decode = utf8_encode,
      json_stringify = demo_stringify,
      json_parse = demo_parse\<rparr>"

definition demo_key :: key_arg where
  "demo_key = KeyBuffer (replicate 32 7)"

definition demo_iv :: buffer where
  "demo_iv = replicate 16 1"

text \<open>A stored record and a stored PHI envelope, as a caller of \<open>decrypt\<close> and
  \<open>decryptPHI\<close> may hold them: the integrity hash of the envelope is the HMAC of its
  \<open>encrypted_data\<close> under \<open>demo_key\<close>.\<close>

definition demo_record :: string where
  "demo_record = ''AQEBAQEBAQEBAQEBAQEBAVBISQAAAAAAAAAAAAAAAAAAAAA=''"

definition demo_phi :: encrypted_phi where
  "demo_phi =
     \<lparr>encrypted_data = demo_record,
      integrity_hash = createHMAC demo_lib demo_record demo_key,
      encrypted_at = ''2024-01-01T00:00:00.000Z''\<rparr>"

section \<open>Audit logger (\<open>utils/auditLogger.js\<close>)\<close>

subsection \<open>Objects and strings\<close>

text \<open>The conversion of a value to a boolean in a condition.\<close>

fun truthy :: "jsval \<Rightarrow> bool" where
  "truthy JUndefined = False"
| "truthy JNull = False"
| "truthy (JBool b) = b"
| "truthy (JNum n) = (n \<noteq> 0)"
| "truthy (JStr s) = (s \<noteq> [])"
| "truthy (JArr vs) = True"
| "truthy (JObj kvs) = True"

text \<open>Assignment \<open>obj[name] = v\<close> replaces the value of an existing field in place and
  appends a new field otherwise; \<open>delete obj[name]\<close> removes the field; the spread
  \<open>{...target, ...source}\<close> assigns the fields of the source in order.\<close>

fun obj_set :: "(string \<times> jsval) list \<Rightarrow> string \<Rightarrow> jsval \<Rightarrow> (string \<times> jsval) list" where
  "obj_set [] name v = [(name, v)]"
| "obj_set ((k, w) # kvs) name v =
     (if k = name then (k, v) # kvs else (k, w) # obj_set kvs name v)"

definition obj_delete :: "(string \<times> jsval) list \<Rightarrow> string \<Rightarrow> (string \<times> jsval) list" where
  "obj_delete kvs name = filter (\<lambda>kv. fst kv \<noteq> name) kvs"

definition obj_spread ::
  "(string \<times> jsval) list \<Rightarrow> (string \<times> jsval) list \<Rightarrow> (string \<times> jsval) list" where
  "obj_spread target source = foldl (\<lambda>acc kv. obj_set acc (fst kv) (snd kv)) target source"

text \<open>Reading a property of a value that is neither \<open>null\<close> nor \<open>undefined\<close>.\<close>

fun get_prop :: "jsval \<Rightarrow> string \<Rightarrow> jsval" where
  "get_prop (JObj kvs) name = lookup_field kvs name"
| "get_prop v name = JUndefined"

definition toLowerCase_char :: "char \<Rightarrow> char" where
  "toLowerCase_char c =
     (let n = (of_char c :: nat) in if 65 \<le> n \<and> n \<le> 90 then char_of (n + 32) else c)"

definition toUpperCase_char :: "char \<Rightarrow> char" where
  "toUpperCase_char c =
     (let n = (of_char c :: nat) in if 97 \<le> n \<and> n \<le> 122 then char_of (n - 32) else c)"

definition toLowerCase :: "string \<Rightarrow> string" where
  "toLowerCase s = map toLowerCase_char s"

definition toUpperCase :: "string \<Rightarrow> string" where
  "toUpperCase s = map toUpperCase_char s"

text \<open>\<open>s.includes(sub)\<close>\<close>

fun str_includes :: "string \<Rightarrow> string \<Rightarrow> bool" where
  "str_includes [] sub = (sub = [])"
| "str_includes (x # xs) sub = (starts_with (x # xs) sub \<or> str_includes xs sub)"

text \<open>The fields of an object as the spread \<open>{...v}\<close> copies them; a value that is not
  an object contributes none.\<close>

fun own_fields :: "jsval \<Rightarrow> (string \<times> jsval) list" where
  "own_fields (JObj kvs) = kvs"
| "own_fields v = []"

text \<open>The string a value contributes to a concatenation with \<open>+\<close>: an array joins its
  elements with commas (\<open>null\<close> and \<open>undefined\<close> elements are empty), a plain object is
  \<open>[object Object]\<close>. The conversion of an object looks up \<open>valueOf\<close> and \<open>toString\<close> on
  it and uses those that are functions and return a primitive value. The inherited
  \<open>valueOf\<close> returns the object itself, so the result is that of \<open>toString\<close>; an object
  with a field of its own named \<open>toString\<close>, which in plain data is not a function, has
  no conversion, and a \<open>TypeError\<close> is thrown.\<close>

fun js_to_string :: "jsval \<Rightarrow> js_error + string"
  and js_join :: "jsval list \<Rightarrow> js_error + string" where
  "js_to_string JUndefined = Inr ''undefined''"
| "js_to_string JNull = Inr ''null''"
| "js_to_string (JBool b) = Inr (if b then ''true'' else ''false'')"
| "js_to_string (JNum i) = Inr (show_int i)"
| "js_to_string (JStr s) = Inr s"
| "js_to_string (JArr vs) = js_join vs"
| "js_to_string (JObj kvs) =
     (if ''toString'' \<in> set (map fst kvs)
      then Inl (TypeError ''Cannot convert object to primitive value'')
      else Inr ''[object Object]'')"
| "js_join [] = Inr []"
| "js_join (v # vs) =
     (case (if v = JNull \<or> v = JUndefined then Inr [] else js_to_string v) of
        Inl e \<Rightarrow> Inl e
      | Inr str \<Rightarrow>
          if vs = [] then Inr str
          else (case js_join vs of
                  Inl e \<Rightarrow> Inl e
                | Inr rest \<Rightarrow> Inr (str @ CHR '','' # rest)))"

subsection \<open>The logger\<close>

text \<open>
  What the logger takes from its surroundings:
  \<^item> \<open>sha256_hex s\<close>: \<open>crypto.createHash('sha256').update(s).digest('hex')\<close>;
  \<^item> \<open>AUDIT_SALT\<close>: \<open>process.env.AUDIT_SALT\<close>, which may be undefined.
\<close>

record audit_lib =
  sha256_hex :: "string \<Rightarrow> string"
  AUDIT_SALT :: "string option"

text \<open>
  What \<open>log\<close> hands on, in order:
  \<^item> \<open>AuditRecord level entry\<close>: the call \<open>auditLogger.log(level, JSON.stringify(entry))\<close>
    on the winston logger of the module;
  \<^item> \<open>SecurityEvent entry\<close>: the call \<open>securityLogger.warn('SECURITY_EVENT', entry)\<close> of
    \<open>logSecurityEvent\<close>;
  \<^item> \<open>ConsoleError line\<close>: the call of \<open>console.error\<close> in the \<open>catch\<close> clause;
  \<^item> \<open>AuditLogFailure record\<close>: the call \<open>error('AUDIT_LOG_FAILURE', record)\<close> on the
    console logger that the \<open>catch\<close> clause makes.

  These calls return to their caller: a winston logger passes an entry to the streams
  of its transports, and a file that cannot be written is reported there, not by an
  exception in the caller. What a transport then does with an entry (which levels it
  keeps, where it writes) is winston's and is not described here.
\<close>

datatype emission =
    AuditRecord string jsval
  | SecurityEvent jsval
  | ConsoleError string
  | AuditLogFailure jsval

text \<open>
  \<open>data + process.env.AUDIT_SALT || 'default-audit-salt'\<close> parses as
  \<open>(data + process.env.AUDIT_SALT) || 'default-audit-salt'\<close>. With a salt the sum is a
  string. Without one, a string, an array or an object is concatenated with
  \<open>'undefined'\<close>, and any other value gives \<open>NaN\<close>, which is falsy.
\<close>

definition salted :: "jsval \<Rightarrow> string option \<Rightarrow> js_error + string" where
  "salted data salt =
     (let sum =
        (case salt of
           Some s \<Rightarrow>
             (case js_to_string data of Inl e \<Rightarrow> Inl e | Inr d \<Rightarrow> Inr (Some (d @ s)))
         | None \<Rightarrow>
             (case data of
                JStr d \<Rightarrow> Inr (Some (d @ ''undefined''))
              | JArr vs \<Rightarrow>
                  (case js_to_string data of Inl e \<Rightarrow> Inl e | Inr d \<Rightarrow> Inr (Some (d @ ''undefined'')))
              | JObj kvs \<Rightarrow>
                  (case js_to_string data of Inl e \<Rightarrow> Inl e | Inr d \<Rightarrow> Inr (Some (d @ ''undefined'')))
              | _ \<Rightarrow> Inr None))
      in case sum of
           Inl e \<Rightarrow> Inl e
         | Inr None \<Rightarrow> Inr ''default-audit-salt''
         | Inr (Some str) \<Rightarrow> Inr (if str = [] then ''default-audit-salt'' else str))"

definition hashSensitiveData :: "audit_lib \<Rightarrow> jsval \<Rightarrow> js_error + string" where
  "hashSensitiveData A data =
     (case salted data (AUDIT_SALT A) of
        Inl e \<Rightarrow> Inl e
      | Inr str \<Rightarrow> Inr (take 16 (sha256_hex A str)))"

definition sensitiveFields :: "string list" where
  "sensitiveFields =
     [''password'', ''token'', ''secret'', ''key'', ''authorization'', ''cookie'', ''session'', ''csrf'']"

definition is_sensitive :: "string \<Rightarrow> bool" where
  "is_sensitive key = list_ex (\<lambda>field. str_includes (toLowerCase key) field) sensitiveFields"

text \<open>\<open>sanitizeObject\<close>: for every key of the object it calls \<open>obj.hasOwnProperty(key)\<close>.
  On an object with a field of its own named \<open>hasOwnProperty\<close>, which in plain data is
  not a function, that call throws a \<open>TypeError\<close>, at the first key. Otherwise a
  sensitive key gets the marker, and a value that is (still) an object or an array is
  sanitized in turn. The keys of an array are its indices, which match no sensitive
  field, and \<open>hasOwnProperty\<close> of an array is the inherited one.\<close>

fun sanitizeObject :: "jsval \<Rightarrow> js_error + jsval"
  and sanitizeFields :: "(string \<times> jsval) list \<Rightarrow> js_error + (string \<times> jsval) list"
  and sanitizeElems :: "jsval list \<Rightarrow> js_error + jsval list" where
  "sanitizeObject (JObj kvs) =
     (if ''hasOwnProperty'' \<in> set (map fst kvs)
      then Inl (TypeError ''obj.hasOwnProperty is not a function'')
      else (case sanitizeFields kvs of
              Inl e \<Rightarrow> Inl e
            | Inr kvs' \<Rightarrow> Inr (JObj kvs')))"
| "sanitizeObject (JArr vs) =
     (case sanitizeElems vs of
        Inl e \<Rightarrow> Inl e
      | Inr vs' \<Rightarrow> Inr (JArr vs'))"
| "sanitizeObject JUndefined = Inr JUndefined"
| "sanitizeObject JNull = Inr JNull"
| "sanitizeObject (JBool b) = Inr (JBool b)"
| "sanitizeObject (JNum n) = Inr (JNum n)"
| "sanitizeObject (JStr s) = Inr (JStr s)"
| "sanitizeFields [] = Inr []"
| "sanitizeFields ((k, v) # kvs) =
     (case (if is_sensitive k then Inr (JStr ''[REDACTED]'') else sanitizeObject v) of
        Inl e \<Rightarrow> Inl e
      | Inr v' \<Rightarrow>
          (case sanitizeFields kvs of
             Inl e \<Rightarrow> Inl e
           | Inr kvs' \<Rightarrow> Inr ((k, v') # kvs')))"
| "sanitizeElems [] = Inr []"
| "sanitizeElems (v # vs) =
     (case sanitizeObject v of
        Inl e \<Rightarrow> Inl e
      | Inr v' \<Rightarrow>
          (case sanitizeElems vs of
             Inl e \<Rightarrow> Inl e
           | Inr vs' \<Rightarrow> Inr (v' # vs')))"

definition determineSeverity :: "string \<Rightarrow> string" where
  "determineSeverity eventType =
     (if list_ex (str_includes eventType)
           [''intrusion_detected'', ''unauthorized_access'', ''data_breach'',
            ''system_compromise'', ''privilege_escalation'']
      then ''HIGH''
      else if list_ex (str_includes eventType)
           [''login_failed'', ''access_denied'', ''configuration_changed'',
            ''encryption_key_rotated'']
      then ''MEDIUM''
      else ''LOW'')"

definition requiresImmediateResponse :: "string \<Rightarrow> bool" where
  "requiresImmediateResponse eventType =
     list_ex (str_includes eventType)
       [''intrusion_detected'', ''data_breach'', ''system_compromise'',
        ''unauthorized_phi_access'', ''multiple_login_failures'']"

text \<open>The entry that \<open>log\<close> builds, with the session context and the request context.
  \<open>eventId\<close> is the value of \<open>crypto.randomUUID()\<close> and \<open>timestamp\<close> that of
  \<open>new Date().toISOString()\<close>.\<close>

definition entry_with_context ::
  "string \<Rightarrow> string \<Rightarrow> string \<Rightarrow> string \<Rightarrow> (string \<times> jsval) list \<Rightarrow> (string \<times> jsval) list" where
  "entry_with_context eventId timestamp level eventType eventData =
     (let auditEntry =
            obj_spread
              [(''eventId'', JStr eventId),
               (''eventType'', JStr eventType),
               (''level'', JStr (toUpperCase level)),
               (''timestamp'', JStr timestamp),
               (''source'', JStr ''hipaa-photo-collector-api'')]
              eventData;
          req = lookup_field eventData ''req'';
          auditEntry =
            (if truthy req \<and> truthy (get_prop req ''user'')
             then obj_delete
                    (obj_set auditEntry ''sessionContext''
                       (JObj [(''userId'', get_prop (get_prop req ''user'') ''userId''),
                              (''username'', get_prop (get_prop req ''user'') ''username''),
                              (''organizationId'', get_prop (get_prop req ''user'') ''organizationId''),
                              (''sessionId'', get_prop (get_prop req ''user'') ''sessionId'')]))
                    ''req''
             else auditEntry)
      in
      if truthy (lookup_field eventData ''clientIP'')
      then obj_set auditEntry ''networkContext''
             (JObj [(''clientIP'', lookup_field eventData ''clientIP''),
                    (''userAgent'',
                       if truthy (lookup_field eventData ''userAgent'')
                       then lookup_field eventData ''userAgent''
                       else JStr ''unknown'')])
      else auditEntry)"

text \<open>The rest of the \<open>try\<close> block up to and including \<open>sanitizeAuditEntry\<close>: the entry
  with its patient identifier hashed and its sensitive fields marked, or the error thrown
  on the way.\<close>

definition audit_entry ::
  "audit_lib \<Rightarrow> string \<Rightarrow> string \<Rightarrow> string \<Rightarrow> string \<Rightarrow> (string \<times> jsval) list \<Rightarrow>
     js_error + jsval" where
  "audit_entry A eventId timestamp level eventType eventData =
     (let auditEntry = entry_with_context eventId timestamp level eventType eventData in
      case (if truthy (lookup_field auditEntry ''patientId'')
            then (case hashSensitiveData A (lookup_field auditEntry ''patientId'') of
                    Inl e \<Rightarrow> Inl e
                  | Inr hashed \<Rightarrow>
                      Inr (obj_delete (obj_set auditEntry ''hashedPatientId'' (JStr hashed))
                             ''patientId''))
            else Inr auditEntry) of
        Inl e \<Rightarrow> Inl e
      | Inr auditEntry \<Rightarrow> sanitizeObject (JObj auditEntry))"

text \<open>\<open>{...auditEntry, severity: ..., requiresResponse: ...}\<close> in \<open>logSecurityEvent\<close>\<close>

definition security_entry :: "string \<Rightarrow> jsval \<Rightarrow> jsval" where
  "security_entry eventType auditEntry =
     JObj (obj_set
       (obj_set (own_fields auditEntry) ''severity'' (JStr (determineSeverity eventType)))
       ''requiresResponse'' (JBool (requiresImmediateResponse eventType)))"

definition is_security_event :: "string \<Rightarrow> string \<Rightarrow> bool" where
  "is_security_event level eventType \<longleftrightarrow>
     level \<in> set [''error'', ''warn''] \<or> str_includes eventType ''security'' \<or>
     str_includes eventType ''intrusion''"

fun message_of :: "js_error \<Rightarrow> string" where
  "message_of (Error m) = m"
| "message_of (RangeError m) = m"
| "message_of (TypeError m) = m"
| "message_of (SyntaxError m) = m"

text \<open>The \<open>try\<close> block of \<open>log\<close>: what it has handed on, and the event id it returns or
  the error that leaves it. The event is plain data (a \<open>jsval\<close>: no functions, no
  cycles), for which \<open>JSON.stringify\<close> returns; an error can then only come from building
  the entry, and nothing has been handed on by then.\<close>

definition log_try ::
  "audit_lib \<Rightarrow> string \<Rightarrow> string \<Rightarrow> string \<Rightarrow> string \<Rightarrow> (string \<times> jsval) list \<Rightarrow>
     emission list \<times> (js_error + string)" where
  "log_try A eventId timestamp level eventType eventData =
     (case audit_entry A eventId timestamp level eventType eventData of
        Inl e \<Rightarrow> ([], Inl e)
      | Inr auditEntry \<Rightarrow>
          (AuditRecord level auditEntry #
             (if is_security_event level eventType
              then [SecurityEvent (security_entry eventType auditEntry)]
              else []),
           Inr eventId))"

text \<open>\<open>log\<close>: the value it returns and what it has handed on. The \<open>catch\<close> clause takes
  every error of the \<open>try\<close> block, writes to the console and to a console logger made on
  the spot, and has no \<open>return\<close> statement: the call then returns \<open>undefined\<close>. The
  statements of the \<open>catch\<close> clause are taken not to throw.\<close>

definition log ::
  "audit_lib \<Rightarrow> string \<Rightarrow> string \<Rightarrow> string \<Rightarrow> string \<Rightarrow> (string \<times> jsval) list \<Rightarrow>
     jsval \<times> emission list" where
  "log A eventId timestamp level eventType eventData =
     (case log_try A eventId timestamp level eventType eventData of
        (emitted, Inr eid) \<Rightarrow> (JStr eid, emitted)
      | (emitted, Inl error) \<Rightarrow>
          (JUndefined,
           emitted @
           [ConsoleError (''Audit logging failed: '' @ message_of error),
            AuditLogFailure
              (JObj [(''originalEvent'', JStr eventType),
                     (''error'', JStr (message_of error)),
                     (''timestamp'', JStr timestamp)])]))"







subsection \<open>An instance\<close>

definition hex_digit :: "nat \<Rightarrow> char" where
  "hex_digit n = ''0123456789abcdef'' ! (n mod 16)"

definition demo_sha256_hex :: "string \<Rightarrow> string" where
  "demo_sha256_hex s =
     (let n = sum_list (map of_char s)
      in concat (map (\<lambda>i. [hex_digit ((n + 7 * i) div 16), hex_digit (n + 7 * i)]) [0..<32]))"

definition demo_audit :: audit_lib where
  "demo_audit = \<lparr>sha256_hex = demo_sha256_hex, AUDIT_SALT = None\<rparr>"



section \<open>Authentication routes (\<open>routes/auth.js\<close>)\<close>

text \<open>
  The user table and the session store are kept in insertion order, as a JavaScript
  object and a \<open>Map\<close> keep them. Instants are milliseconds since the epoch; comparing
  two \<open>Date\<close> objects with \<open>>\<close> compares these.
\<close>

record user =
  user_id :: string
  username :: string
  passwordHash :: string
  organizationId :: string
  role :: string
  permissions :: "string list"
  isActive :: bool
  lastLogin :: "int option"

record session =
  userId :: string
  session_username :: string
  session_organizationId :: string
  clientIP :: string
  userAgent :: "string option"
  createdAt :: int
  expiresAt :: int
  loginAttempts :: int

record auth_state =
  users :: "(string \<times> user) list"
  activeSessions :: "(string \<times> session) list"

text \<open>The body of a login request that has passed \<open>validateRequest(loginSchema)\<close>, with
  the address and the user agent of the client.\<close>

record login_request =
  req_username :: string
  req_password :: string
  req_ip :: string
  req_userAgent :: "string option"

record response =
  status :: nat
  body :: jsval

text \<open>A call \<open>auditLogger.log(level, eventType, eventData)\<close>.\<close>

datatype audit_call = AuditCall string string "(string \<times> jsval) list"

text \<open>The claims of a verified token, \<open>req.user\<close>.\<close>

record token_claims =
  claim_userId :: string
  claim_username :: string
  claim_organizationId :: string
  claim_role :: string
  claim_permissions :: "string list"
  claim_sessionId :: string

text \<open>
  What the routes take from \<open>bcryptjs\<close> and \<open>jsonwebtoken\<close>:
  \<^item> \<open>bcrypt_compare password hash\<close>: the result of \<open>bcrypt.compare\<close>, or the error it
    rejects with;
  \<^item> \<open>jwt_sign payload\<close>: the token \<open>jwt.sign\<close> returns;
  \<^item> \<open>jwt_verify token now\<close>: the claims \<open>jwt.verify\<close> passes to its callback, or its error.
\<close>

record auth_lib =
  bcrypt_compare :: "string \<Rightarrow> string \<Rightarrow> js_error + bool"
  jwt_sign :: "jsval \<Rightarrow> string"
  jwt_verify :: "string \<Rightarrow> int \<Rightarrow> js_error + token_claims"

definition json_reply :: "nat \<Rightarrow> bool \<Rightarrow> string \<Rightarrow> response" where
  "json_reply code ok msg =
     \<lparr>status = code, body = JObj [(''success'', JBool ok), (''message'', JStr msg)]\<rparr>"

definition opt_str :: "string option \<Rightarrow> jsval" where
  "opt_str x = (case x of None \<Rightarrow> JUndefined | Some s \<Rightarrow> JStr s)"

text \<open>
  \<open>users[username]\<close>. The table is an object literal, so the lookup finds an entry of
  the table and, for a name that is not an entry, what the table inherits from
  \<open>Object.prototype\<close>: a function for each of its methods and the prototype object
  itself for \<open>__proto__\<close>. Each of these is truthy and has no property \<open>isActive\<close>.
\<close>

datatype user_lookup = NoUser | InheritedMember | OwnUser user

definition object_prototype_members :: "string list" where
  "object_prototype_members =
     [''constructor'', ''hasOwnProperty'', ''isPrototypeOf'', ''propertyIsEnumerable'',
      ''toLocaleString'', ''toString'', ''valueOf'', ''__proto__'',
      ''__defineGetter__'', ''__defineSetter__'', ''__lookupGetter__'', ''__lookupSetter__'']"

definition users_lookup :: "(string \<times> user) list \<Rightarrow> string \<Rightarrow> user_lookup" where
  "users_lookup table name =
     (case map_of table name of
        Some user \<Rightarrow> OwnUser user
      | None \<Rightarrow> if name \<in> set object_prototype_members then InheritedMember else NoUser)"

text \<open>The sum of the positive \<open>loginAttempts\<close> of the sessions of the client.\<close>

definition recentAttempts :: "(string \<times> session) list \<Rightarrow> string \<Rightarrow> int" where
  "recentAttempts sessions ip =
     sum_list (map loginAttempts
       (filter (\<lambda>session. clientIP session = ip \<and> loginAttempts session > 0) (map snd sessions)))"

text \<open>\<open>POST /auth/login\<close>. \<open>now\<close> is the reading of the clock and \<open>sessionId\<close> the value of
  \<open>uuidv4()\<close>. The result is the response, the state and the audit calls made.\<close>

definition login ::
  "auth_lib \<Rightarrow> auth_state \<Rightarrow> int \<Rightarrow> string \<Rightarrow> login_request \<Rightarrow>
     response \<times> auth_state \<times> audit_call list" where
  "login P st now sessionId req =
     (let username = req_username req;
          password = req_password req;
          ip = req_ip req;
          recent = recentAttempts (activeSessions st) ip
      in
      if recent \<ge> 3 then
        (json_reply 429 False ''Too many login attempts. Please try again later.'', st,
         [AuditCall ''warning'' ''excessive_login_attempts''
            [(''username'', JStr username), (''clientIP'', JStr ip), (''attempts'', JNum recent)]])
      else
        case users_lookup (users st) username of
          NoUser \<Rightarrow>
            (json_reply 401 False ''Invalid credentials'', st,
             [AuditCall ''warning'' ''login_user_not_found''
                [(''username'', JStr username), (''clientIP'', JStr ip)]])
        | InheritedMember \<Rightarrow>
            (json_reply 401 False ''Account is disabled'', st,
             [AuditCall ''warning'' ''login_inactive_user''
                [(''username'', JStr username), (''clientIP'', JStr ip)]])
        | OwnUser user \<Rightarrow>
            if \<not> isActive user then
              (json_reply 401 False ''Account is disabled'', st,
               [AuditCall ''warning'' ''login_inactive_user''
                  [(''username'', JStr username), (''clientIP'', JStr ip)]])
            else
              (case bcrypt_compare P password (passwordHash user) of
                 Inl error \<Rightarrow>
                   (json_reply 500 False ''Authentication service error'', st,
                    [AuditCall ''error'' ''login_error''
                       [(''username'', JStr username), (''clientIP'', JStr ip),
                        (''error'', JStr (message_of error))]])
               | Inr isValidPassword \<Rightarrow>
                   if \<not> isValidPassword then
                     (json_reply 401 False ''Invalid credentials'', st,
                      [AuditCall ''warning'' ''login_invalid_password''
                         [(''username'', JStr username), (''clientIP'', JStr ip)]])
                   else
                     let tokenPayload =
                           JObj [(''userId'', JStr (user_id user)),
                                 (''username'', JStr (user.username user)),
                                 (''organizationId'', JStr (organizationId user)),
                                 (''role'', JStr (role user)),
                                 (''permissions'', JArr (map JStr (permissions user))),
                                 (''sessionId'', JStr sessionId)];
                         token = jwt_sign P tokenPayload;
                         newSession =
                           \<lparr>userId = user_id user,
                            session_username = user.username user,
                            session_organizationId = organizationId user,
                            clientIP = ip,
                            userAgent = req_userAgent req,
                            createdAt = now,
                            expiresAt = now + 60 * 60 * 1000,
                            loginAttempts = 0\<rparr>;
                         st' =
                           \<lparr>users = AList.update username (user\<lparr>lastLogin := Some now\<rparr>) (users st),
                            activeSessions = AList.update sessionId newSession (activeSessions st)\<rparr>
                     in
                     (\<lparr>status = 200,
                       body = JObj [(''success'', JBool True),
                                    (''token'', JStr token),
                                    (''user'', JStr username),
                                    (''organizationId'', JStr (organizationId user)),
                                    (''expiresIn'', JNum 3600),
                                    (''permissions'', JArr (map JStr (permissions user)))]\<rparr>,
                      st',
                      [AuditCall ''info'' ''login_success''
                         [(''userId'', JStr (user_id user)),
                          (''username'', JStr (user.username user)),
                          (''organizationId'', JStr (organizationId user)),
                          (''sessionId'', JStr sessionId),
                          (''clientIP'', JStr ip),
                          (''userAgent'', opt_str (req_userAgent req))]])))"

text \<open>A sequence of requests handled by the route, each with its clock reading and its
  fresh session id: the responses in order and the state at the end.\<close>

fun login_sequence ::
  "auth_lib \<Rightarrow> auth_state \<Rightarrow> (int \<times> string \<times> login_request) list \<Rightarrow> response list \<times> auth_state" where
  "login_sequence P st [] = ([], st)"
| "login_sequence P st ((now, sessionId, req) # rest) =
     (case login P st now sessionId req of
        (res, st', calls) \<Rightarrow>
          (case login_sequence P st' rest of
             (ress, st'') \<Rightarrow> (res # ress, st'')))"


text \<open>\<open>POST /auth/logout\<close>, behind \<open>authenticateToken\<close>: \<open>claims\<close> is \<open>req.user\<close>.\<close>

definition logout ::
  "auth_state \<Rightarrow> token_claims \<Rightarrow> string \<Rightarrow> response \<times> auth_state \<times> audit_call list" where
  "logout st claims ip =
     (json_reply 200 True ''Logged out successfully'',
      st\<lparr>activeSessions := AList.delete (claim_sessionId claims) (activeSessions st)\<rparr>,
      [AuditCall ''info'' ''logout_success''
         [(''userId'', JStr (claim_userId claims)),
          (''username'', JStr (claim_username claims)),
          (''sessionId'', JStr (claim_sessionId claims)),
          (''clientIP'', JStr ip)]])"

text \<open>\<open>GET /auth/verify\<close>, behind \<open>authenticateToken\<close>. The session has expired when
  \<open>new Date() > session.expiresAt\<close>.\<close>

definition verify :: "auth_state \<Rightarrow> int \<Rightarrow> token_claims \<Rightarrow> response \<times> auth_state" where
  "verify st now claims =
     (case map_of (activeSessions st) (claim_sessionId claims) of
        None \<Rightarrow> (json_reply 401 False ''Session expired'', st)
      | Some session \<Rightarrow>
          if now > expiresAt session then
            (json_reply 401 False ''Session expired'',
             st\<lparr>activeSessions := AList.delete (claim_sessionId claims) (activeSessions st)\<rparr>)
          else
            (\<lparr>status = 200,
              body = JObj [(''success'', JBool True),
                           (''user'', JObj [(''userId'', JStr (claim_userId claims)),
                                            (''username'', JStr (claim_username claims)),
                                            (''organizationId'', JStr (claim_organizationId claims))]),
                           (''expiresAt'', JNum (expiresAt session))]\<rparr>,
             st))"

text \<open>\<open>authHeader && authHeader.split(' ')[1]\<close>\<close>

fun split_space :: "string \<Rightarrow> string \<Rightarrow> string list" where
  "split_space acc [] = [rev acc]"
| "split_space acc (c # cs) =
     (if c = CHR '' '' then rev acc # split_space [] cs else split_space (c # acc) cs)"

definition bearer_token :: "string option \<Rightarrow> string option" where
  "bearer_token authHeader =
     (case authHeader of
        None \<Rightarrow> None
      | Some h \<Rightarrow>
          (case split_space [] h of
             a # t # rest \<Rightarrow> if t = [] then None else Some t
           | _ \<Rightarrow> None))"

text \<open>The middleware \<open>authenticateToken\<close>: a response of its own, or the claims it passes
  on as \<open>req.user\<close>.\<close>

definition authenticateToken ::
  "auth_lib \<Rightarrow> string option \<Rightarrow> string \<Rightarrow> int \<Rightarrow> (response \<times> audit_call list) + token_claims" where
  "authenticateToken P authHeader ip now =
     (case bearer_token authHeader of
        None \<Rightarrow> Inl (json_reply 401 False ''Access token required'', [])
      | Some token \<Rightarrow>
          (case jwt_verify P token now of
             Inl err \<Rightarrow>
               Inl (json_reply 403 False ''Invalid or expired token'',
                    [AuditCall ''warning'' ''invalid_token''
                       [(''clientIP'', JStr ip), (''error'', JStr (message_of err))]])
           | Inr claims \<Rightarrow> Inr claims))"

text \<open>\<open>GET /auth/verify\<close> with its middleware.\<close>

definition verify_route ::
  "auth_lib \<Rightarrow> auth_state \<Rightarrow> int \<Rightarrow> string option \<Rightarrow> string \<Rightarrow> response \<times> auth_state" where
  "verify_route P st now authHeader ip =
     (case authenticateToken P authHeader ip now of
        Inl (res, calls) \<Rightarrow> (res, st)
      | Inr claims \<Rightarrow> verify st now claims)"

text \<open>\<open>cleanupExpiredSessions\<close>\<close>

definition cleanupExpiredSessions :: "auth_state \<Rightarrow> int \<Rightarrow> auth_state \<times> audit_call list" where
  "cleanupExpiredSessions st now =
     (let expiredSessions = map fst (filter (\<lambda>(sessionId, session). now > expiresAt session) (activeSessions st))
      in (st\<lparr>activeSessions := filter (\<lambda>(sessionId, session). sessionId \<notin> set expiredSessions) (activeSessions st)\<rparr>,
          if length expiredSessions > 0
          then [AuditCall ''info'' ''sessions_cleaned_up''
                  [(''expiredCount'', JNum (int (length expiredSessions)))]]
          else []))"

subsection \<open>An instance\<close>

text \<open>The user table of the source, a password check that accepts \<open>demo123\<close> for its
  hash, and a state with one session issued at instant 0.\<close>

definition demo_user :: user where
  "demo_user =
     \<lparr>user_id = ''user_001'',
      username = ''demo'',
      passwordHash = ''$2a$10$92IXUNpkjO0rOQ5byMi.Ye4oKoEa3Ro9llC/.og/at2.uheWG/igi'',
      organizationId = ''org_healthcare_001'',
      role = ''healthcare_provider'',
      permissions = [''read'', ''write'', ''upload''],
      isActive = True,
      lastLogin = None\<rparr>"

definition demo_claims :: token_claims where
  "demo_claims =
     \<lparr>claim_userId = ''user_001'',
      claim_username = ''demo'',
      claim_organizationId = ''org_healthcare_001'',
      claim_role = ''healthcare_provider'',
      claim_permissions = [''read'', ''write'', ''upload''],
      claim_sessionId = ''s1''\<rparr>"

definition demo_auth_lib :: auth_lib where
  "demo_auth_lib =
     \<lparr>bcrypt_compare = (\<lambda>password hash. Inr (password = ''demo123'' \<and> hash = passwordHash demo_user)),
      jwt_sign = (\<lambda>payload. case get_prop payload ''sessionId'' of JStr s \<Rightarrow> ''jwt.'' @ s | _ \<Rightarrow> ''jwt''),
      jwt_verify =
        (\<lambda>token now. if token = ''jwt.s1'' then Inr demo_claims else Inl (Error ''jwt malformed''))\<rparr>"

definition demo_session :: session where
  "demo_session =
     \<lparr>userId = ''user_001'',
      session_username = ''demo'',
      session_organizationId = ''org_healthcare_001'',
      clientIP = ''10.0.0.1'',
      userAgent = None,
      createdAt = 0,
      expiresAt = 3600000,
      loginAttempts = 0\<rparr>"

definition demo_state :: auth_state where
  "demo_state = \<lparr>users = [(''demo'', demo_user)], activeSessions = [(''s1'', demo_session)]\<rparr>"


definition wrong_password :: login_request where
  "wrong_password =
     \<lparr>req_username = ''demo'', req_password = ''letmein'', req_ip = ''10.0.0.9'', req_userAgent = None\<rparr>"

definition unknown_user :: login_request where
  "unknown_user =
     \<lparr>req_username = ''mallory'', req_password = ''letmein'', req_ip = ''10.0.0.9'', req_userAgent = None\<rparr>"


text \<open>Six attempts from one address: wrong passwords for \<open>demo\<close> and an unknown user.\<close>

definition demo_attempts :: "(int \<times> string \<times> login_request) list" where
  "demo_attempts =
     [(1000, ''a1'', wrong_password), (2000, ''a2'', unknown_user), (3000, ''a3'', wrong_password),
      (4000, ''a4'', wrong_password), (5000, ''a5'', unknown_user), (6000, ''a6'', wrong_password)]"

chapter \<open>Properties\<close>

section \<open>Buffers and strings\<close>

lemma char_of_byte_of_char [simp]: "char_of_byte (byte_of_char c) = c"
proof -
  have "unat (of_nat (of_char c) :: byte) = of_char c mod 256"
    by (simp add: unat_of_nat)
  also have "\<dots> = of_char c"
    by (rule of_char_mod_256)
  finally show ?thesis
    by (simp add: byte_of_char_def char_of_byte_def)
qed

lemma byte_of_char_of_byte [simp]: "byte_of_char (char_of_byte w) = w"
proof -
  have "unat w < 256"
    using unsigned_less [of w, where ?'a = nat] by simp
  then have "(of_char (char_of (unat w)) :: nat) = unat w"
    by (simp add: of_char_of)
  then show ?thesis
    by (simp add: byte_of_char_def char_of_byte_def)
qed

lemma utf8_decode_encode [simp]: "utf8_decode (utf8_encode s) = s"
  by (simp add: utf8_decode_def utf8_encode_def map_idI)

lemma utf8_encode_decode [simp]: "utf8_encode (utf8_decode b) = b"
  by (simp add: utf8_decode_def utf8_encode_def map_idI)

lemma length_utf8_encode [simp]: "length (utf8_encode s) = length s"
  by (simp add: utf8_encode_def)

section \<open>The instance meets the assumptions\<close>

lemma demo_lib_laws: "crypto_laws demo_lib"
  by (simp add: crypto_laws_def demo_lib_def map_idI)

lemma demo_key_length: "length (key_buffer demo_lib demo_key) = KEY_LENGTH"
  by (simp add: key_buffer_def demo_key_def KEY_LENGTH_def)

lemma demo_iv_length: "length demo_iv = IV_LENGTH"
  by (simp add: demo_iv_def IV_LENGTH_def)

section \<open>\<open>encrypt\<close> and \<open>decrypt\<close>\<close>

text \<open>With a key of 32 bytes the \<open>try\<close> block of either function ends at the call of
  the missing member of \<open>crypto\<close>.\<close>

lemma encrypt_try_valid_key:
  assumes "length (key_buffer L key) = KEY_LENGTH"
  shows "encrypt_try L iv p key a = Inl (TypeError ''crypto.createCipherGCM is not a function'')"
  using assms by (simp add: encrypt_try_def Let_def)

lemma decrypt_try_valid_key:
  assumes "length (key_buffer L key) = KEY_LENGTH"
  shows "decrypt_try L d key a = Inl (TypeError ''crypto.createDecipherGCM is not a function'')"
  using assms by (simp add: decrypt_try_def Let_def)

lemma encrypt_demo_key:
  "encrypt_try demo_lib demo_iv ''Sensitive HIPAA data'' demo_key None =
     Inl (TypeError ''crypto.createCipherGCM is not a function'') \<and>
   encrypt demo_lib demo_iv ''Sensitive HIPAA data'' demo_key None =
     Inl (Error ''Encryption failed'')"
  by (simp add: encrypt_def encrypt_try_valid_key [OF demo_key_length])

lemma decrypt_demo_record:
  "decrypt_try demo_lib demo_record demo_key None =
     Inl (TypeError ''crypto.createDecipherGCM is not a function'') \<and>
   decrypt demo_lib demo_record demo_key None = Inl (Error ''Decryption failed'')"
  by (simp add: decrypt_def decrypt_try_valid_key [OF demo_key_length])

text \<open>
  Claim C1 fails on the code. For every plaintext, every key (of 32 bytes or not), every
  IV and every associated data, \<open>encrypt\<close> returns no record: it raises
  \<open>Error('Encryption failed')\<close>. So there is no record that \<open>decrypt\<close> could turn back
  into the plaintext.
\<close>

theorem encrypt_always_fails:
  "encrypt L iv plaintext key associatedData = Inl (Error ''Encryption failed'')"
  by (simp add: encrypt_def encrypt_try_def Let_def)


section \<open>Keys of the wrong length\<close>

lemma wrong_key_length:
  assumes "length (key_buffer L key) \<noteq> KEY_LENGTH"
  shows "encrypt_try L iv p key a = Inl (invalid_key_length (length (key_buffer L key)))"
    and "encrypt L iv p key a = Inl (Error ''Encryption failed'')"
    and "decrypt_try L d key a = Inl (invalid_key_length (length (key_buffer L key)))"
    and "decrypt L d key a = Inl (Error ''Decryption failed'')"
  using assms by (simp_all add: encrypt_def encrypt_try_def decrypt_def decrypt_try_def Let_def)

text \<open>
  Claim C8, as amended. For every plaintext and every key whose byte length is not 32,
  \<open>encrypt\<close> produces no ciphertext: the error naming the expected and the actual key
  length is raised inside its \<open>try\<close> block, and the \<open>catch\<close> clause replaces it by the
  generic \<open>Error('Encryption failed')\<close>, which is what the caller receives. The same
  holds for \<open>decrypt\<close>, whose caller receives \<open>Error('Decryption failed')\<close>.
\<close>

theorem wrong_key_length_generic_failure:
  assumes "length (key_buffer L key) \<noteq> KEY_LENGTH"
  shows "encrypt_try L iv p key a = Inl (invalid_key_length (length (key_buffer L key))) \<and>
         encrypt L iv p key a = Inl (Error ''Encryption failed'') \<and>
         decrypt_try L d key a = Inl (invalid_key_length (length (key_buffer L key))) \<and>
         decrypt L d key a = Inl (Error ''Decryption failed'')"
  using wrong_key_length [OF assms] by simp

theorem wrong_key_length_generic_failure_witness:
  "length (key_buffer demo_lib (KeyBuffer (replicate 31 7))) \<noteq> KEY_LENGTH \<and>
   encrypt_try demo_lib demo_iv ''PHI'' (KeyBuffer (replicate 31 7)) None =
     Inl (Error ''Invalid key length. Expected 32 bytes, got 31'') \<and>
   encrypt demo_lib demo_iv ''PHI'' (KeyBuffer (replicate 31 7)) None =
     Inl (Error ''Encryption failed'') \<and>
   decrypt_try demo_lib demo_record (KeyBuffer (replicate 31 7)) None =
     Inl (Error ''Invalid key length. Expected 32 bytes, got 31'') \<and>
   decrypt demo_lib demo_record (KeyBuffer (replicate 31 7)) None =
     Inl (Error ''Decryption failed'')"
proof -
  have k: "length (key_buffer demo_lib (KeyBuffer (replicate 31 7))) \<noteq> KEY_LENGTH"
    by (simp add: key_buffer_def KEY_LENGTH_def)
  have m: "invalid_key_length (length (key_buffer demo_lib (KeyBuffer (replicate 31 7)))) =
      Error ''Invalid key length. Expected 32 bytes, got 31''"
    by code_simp
  show ?thesis
    using wrong_key_length_generic_failure [OF k, of demo_iv "''PHI''" None demo_record] k m
    by simp
qed

text \<open>
  Claim C8 as stated fails: with a key of 31 bytes the error that reaches the caller of
  \<open>encrypt\<close> is the generic one, not the error that identifies the key length.
\<close>

theorem wrong_key_length_not_identified:
  "encrypt demo_lib demo_iv ''PHI'' (KeyBuffer (replicate 31 7)) None =
     Inl (Error ''Encryption failed'') \<and>
   encrypt demo_lib demo_iv ''PHI'' (KeyBuffer (replicate 31 7)) None \<noteq>
     Inl (invalid_key_length 31)"
  by code_simp

section \<open>\<open>verifyHMAC\<close> and \<open>decryptPHI\<close>\<close>

lemma verifyHMAC_length_mismatch:
  assumes "crypto_laws L" and "length (base64_decode L tag) \<noteq> 32"
  shows "verifyHMAC L data tag key = Inl (RangeError ''Input buffers must have the same byte length'')"
  using assms by (simp add: verifyHMAC_def createHMAC_def timingSafeEqual_def crypto_laws_def)

lemma decryptPHI_length_mismatch:
  assumes "crypto_laws L" and "length (base64_decode L (integrity_hash r)) \<noteq> 32"
  shows "decryptPHI L r key = Inl (RangeError ''Input buffers must have the same byte length'')"
  using verifyHMAC_length_mismatch [OF assms] by (simp add: decryptPHI_def)

text \<open>
  Claim C10. For every data value, key and candidate tag whose base64-decoded length is
  not 32 bytes, \<open>verifyHMAC\<close> raises (the \<open>RangeError\<close> of \<open>crypto.timingSafeEqual\<close>)
  instead of returning \<open>false\<close>; \<open>decryptPHI\<close> on a record with such an
  \<open>integrity_hash\<close> therefore raises that error, which is not the error
  \<open>'Data integrity check failed'\<close>.
\<close>

theorem verifyHMAC_wrong_length_raises:
  assumes "crypto_laws L" and "length (base64_decode L tag) \<noteq> 32"
  shows "verifyHMAC L data tag key =
           Inl (RangeError ''Input buffers must have the same byte length'') \<and>
         decryptPHI L \<lparr>encrypted_data = data, integrity_hash = tag, encrypted_at = ts\<rparr> key =
           Inl (RangeError ''Input buffers must have the same byte length'') \<and>
         decryptPHI L \<lparr>encrypted_data = data, integrity_hash = tag, encrypted_at = ts\<rparr> key \<noteq>
           Inl (Error ''Data integrity check failed'')"
  using verifyHMAC_length_mismatch [OF assms, of data key]
    decryptPHI_length_mismatch [OF assms(1), of "\<lparr>encrypted_data = data, integrity_hash = tag, encrypted_at = ts\<rparr>" key]
    assms(2)
  by simp

theorem verifyHMAC_wrong_length_raises_witness:
  "crypto_laws demo_lib \<and> length (base64_decode demo_lib ''c2hvcnQ='') \<noteq> 32 \<and>
   verifyHMAC demo_lib demo_record ''c2hvcnQ='' demo_key =
     Inl (RangeError ''Input buffers must have the same byte length'') \<and>
   decryptPHI demo_lib
     \<lparr>encrypted_data = demo_record, integrity_hash = ''c2hvcnQ='', encrypted_at = ''2024''\<rparr> demo_key =
     Inl (RangeError ''Input buffers must have the same byte length'') \<and>
   decryptPHI demo_lib
     \<lparr>encrypted_data = demo_record, integrity_hash = ''c2hvcnQ='', encrypted_at = ''2024''\<rparr> demo_key \<noteq>
     Inl (Error ''Data integrity check failed'')"
proof -
  have len: "length (base64_decode demo_lib ''c2hvcnQ='') \<noteq> 32"
    by code_simp
  show ?thesis
    using verifyHMAC_wrong_length_raises [OF demo_lib_laws len, of demo_record demo_key "''2024''"]
      demo_lib_laws len
    by simp
qed

text \<open>
  Claim C7 at a record whose \<open>integrity_hash\<close> has been replaced by the empty string:
  the HMAC does not verify, and \<open>decryptPHI\<close> raises the \<open>RangeError\<close> of the
  comparison, not its integrity error.
\<close>

theorem decryptPHI_empty_integrity_hash:
  "decryptPHI demo_lib (demo_phi\<lparr>integrity_hash := ''''\<rparr>) demo_key =
     Inl (RangeError ''Input buffers must have the same byte length'')"
proof -
  have "length (base64_decode demo_lib (integrity_hash (demo_phi\<lparr>integrity_hash := ''''\<rparr>))) \<noteq> 32"
    by (simp add: demo_lib_def utf8_encode_def)
  then show ?thesis
    by (rule decryptPHI_length_mismatch [OF demo_lib_laws])
qed

text \<open>The other outcomes of \<open>decryptPHI\<close>: a tag of the right length that is not the
  HMAC of the data is answered by the integrity error; a record whose HMAC verifies is
  answered by the error of \<open>decrypt\<close>. No record is answered by a payload, and
  \<open>encryptPHI\<close> makes no record.\<close>

lemma verifyHMAC_computed:
  "verifyHMAC L data (createHMAC L data key) key = Inr True"
  by (simp add: verifyHMAC_def timingSafeEqual_def Let_def)

lemma verifyHMAC_same_length:
  assumes "crypto_laws L" and "length (base64_decode L tag) = 32"
  shows "verifyHMAC L data tag key =
           Inr (base64_decode L tag = hmac_sha256 L (hmac_key key) (utf8_encode data))"
  using assms by (simp add: verifyHMAC_def createHMAC_def timingSafeEqual_def crypto_laws_def)

lemma decryptPHI_hmac_mismatch:
  assumes "crypto_laws L" and "length (base64_decode L (integrity_hash r)) = 32"
    and "base64_decode L (integrity_hash r) \<noteq>
           hmac_sha256 L (hmac_key key) (utf8_encode (encrypted_data r))"
  shows "decryptPHI L r key = Inl (Error ''Data integrity check failed'')"
  using assms(3) verifyHMAC_same_length [OF assms(1,2), of "encrypted_data r" key]
  by (simp add: decryptPHI_def)

lemma decryptPHI_hmac_verified:
  assumes "verifyHMAC L (encrypted_data r) (integrity_hash r) key = Inr True"
  shows "decryptPHI L r key = Inl (Error ''Decryption failed'')"
  using assms by (simp add: decryptPHI_def decrypt_def decrypt_try_def Let_def)

lemma decryptPHI_no_payload: "decryptPHI L r key \<noteq> Inr v"
  by (simp add: decryptPHI_def decrypt_def decrypt_try_def Let_def split: sum.splits)

lemma encryptPHI_fails:
  "encryptPHI L iv timestamp phiData key = Inl (Error ''Encryption failed'')"
  by (simp add: encryptPHI_def encrypt_def encrypt_try_def Let_def)

lemma demo_phi_rejected:
  "decryptPHI demo_lib demo_phi demo_key = Inl (Error ''Decryption failed'')"
  by (rule decryptPHI_hmac_verified) (simp add: demo_phi_def verifyHMAC_computed)

lemma demo_phi_tampered_data:
  "decryptPHI demo_lib (demo_phi\<lparr>encrypted_data := ''tampered_data''\<rparr>) demo_key =
     Inl (Error ''Data integrity check failed'')"
  by code_simp

section \<open>The audit logger\<close>








lemma lookup_obj_set [simp]:
  "lookup_field (obj_set kvs n v) k = (if k = n then v else lookup_field kvs k)"
  by (induction kvs n v rule: obj_set.induct) auto

lemma lookup_obj_delete [simp]:
  "lookup_field (obj_delete kvs n) k = (if k = n then JUndefined else lookup_field kvs k)"
  by (induction kvs) (auto simp: obj_delete_def)
































lemma log_patientId_toString:
  "log demo_audit ''evt-1'' ''2024-01-01T00:00:00.000Z'' ''info'' ''phi_accessed''
     [(''patientId'', JObj [(''toString'', JStr ''P1'')])] =
     (JUndefined,
      [ConsoleError ''Audit logging failed: Cannot convert object to primitive value'',
       AuditLogFailure
         (JObj [(''originalEvent'', JStr ''phi_accessed''),
                (''error'', JStr ''Cannot convert object to primitive value''),
                (''timestamp'', JStr ''2024-01-01T00:00:00.000Z'')])])"
  by code_simp

section \<open>Login attempts and the rate limit\<close>

text \<open>The check of the route itself: every session is stored with \<open>loginAttempts\<close> 0,
  so the sum of the attempts of a client stays 0 and the route never answers 429.\<close>

lemma recentAttempts_zero:
  assumes "list_all (\<lambda>(sessionId, session). loginAttempts session = 0) sessions"
  shows "recentAttempts sessions ip = 0"
proof -
  have "filter (\<lambda>session. clientIP session = ip \<and> loginAttempts session > 0) (map snd sessions) = []"
    using assms by (auto simp: filter_empty_conv list_all_iff)
  then show ?thesis
    by (simp add: recentAttempts_def)
qed

lemma login_keeps_loginAttempts_zero:
  assumes "list_all (\<lambda>(sessionId, session). loginAttempts session = 0) (activeSessions st)"
  shows "list_all (\<lambda>(sessionId, session). loginAttempts session = 0)
           (activeSessions (fst (snd (login P st now sessionId req))))"
proof -
  have upd: "list_all (\<lambda>(sessionId, session). loginAttempts session = 0) (AList.update k s al)"
    if "loginAttempts s = 0" "list_all (\<lambda>(sessionId, session). loginAttempts session = 0) al"
    for k s and al :: "(string \<times> session) list"
    using that by (induction al) auto
  show ?thesis
    using assms
    by (auto simp: login_def Let_def upd split: user_lookup.splits sum.splits)
qed

lemma login_never_rate_limits:
  assumes "list_all (\<lambda>(sessionId, session). loginAttempts session = 0) (activeSessions st)"
  shows "status (fst (login P st now sessionId req)) \<noteq> 429"
  using recentAttempts_zero [OF assms, of "req_ip req"]
  by (auto simp: login_def Let_def json_reply_def split: user_lookup.splits sum.splits)

lemma login_sequence_Cons:
  "login_sequence P st ((now, sessionId, req) # rest) =
     (fst (login P st now sessionId req) #
        fst (login_sequence P (fst (snd (login P st now sessionId req))) rest),
      snd (login_sequence P (fst (snd (login P st now sessionId req))) rest))"
  by (simp split: prod.splits)

lemma login_sequence_never_rate_limits:
  assumes "list_all (\<lambda>(sessionId, session). loginAttempts session = 0) (activeSessions st)"
  shows "list_all (\<lambda>res. status res \<noteq> 429) (fst (login_sequence P st attempts))"
  using assms
proof (induction attempts arbitrary: st)
  case Nil
  then show ?case by simp
next
  case (Cons a rest)
  obtain now sessionId req where a: "a = (now, sessionId, req)"
    by (cases a) auto
  have "status (fst (login P st now sessionId req)) \<noteq> 429"
    by (rule login_never_rate_limits [OF Cons.prems])
  moreover have "list_all (\<lambda>res. status res \<noteq> 429)
      (fst (login_sequence P (fst (snd (login P st now sessionId req))) rest))"
    by (rule Cons.IH [OF login_keeps_loginAttempts_zero [OF Cons.prems]])
  ultimately show ?case
    unfolding a login_sequence_Cons by simp
qed


text \<open>The same after a successful login from that address, with a session of the client
  in the store.\<close>

lemma failed_logins_after_success:
  "map status (fst (login_sequence demo_auth_lib demo_state
     ((500, ''a0'', wrong_password\<lparr>req_password := ''demo123''\<rparr>) # demo_attempts))) =
     [200, 401, 401, 401, 401, 401, 401]"
  by code_simp

lemma login_creates_session:
  assumes "status (fst (login P st now sessionId req)) = 200"
  shows "\<exists>session. map_of (activeSessions (fst (snd (login P st now sessionId req)))) sessionId = Some session \<and>
           createdAt session = now \<and> expiresAt session = now + 3600000 \<and> loginAttempts session = 0"
  using assms
  by (auto simp: login_def Let_def json_reply_def update_conv' split: option.splits sum.splits if_splits user_lookup.splits)

section \<open>Session verification\<close>

lemma cleanup_removes_expired:
  assumes "(sessionId, session) \<in> set (activeSessions (fst (cleanupExpiredSessions st now)))"
  shows "\<not> now > expiresAt session"
proof
  assume "now > expiresAt session"
  moreover have "(sessionId, session) \<in> set (activeSessions st)"
    using assms by (auto simp: cleanupExpiredSessions_def Let_def)
  ultimately have "sessionId \<in> fst ` {x \<in> set (activeSessions st). case x of (k, s) \<Rightarrow> now > expiresAt s}"
    by force
  then show False
    using assms by (auto simp: cleanupExpiredSessions_def Let_def)
qed

lemma verify_status:
  "status (fst (verify st now claims)) = 200 \<longleftrightarrow>
     (\<exists>session. map_of (activeSessions st) (claim_sessionId claims) = Some session \<and>
        now \<le> expiresAt session)"
  by (auto simp: verify_def json_reply_def split: option.splits)

lemma verify_failure:
  "status (fst (verify st now claims)) \<noteq> 200 \<Longrightarrow>
     fst (verify st now claims) = json_reply 401 False ''Session expired''"
  by (auto simp: verify_def json_reply_def split: option.splits if_splits)

lemma verify_after_logout:
  "fst (verify (fst (snd (logout st claims ip))) now claims) = json_reply 401 False ''Session expired''"
  by (simp add: verify_def logout_def delete_conv')

lemma verify_route_verified:
  assumes "bearer_token authHeader = Some token" and "jwt_verify P token now = Inr claims"
  shows "verify_route P st now authHeader ip = verify st now claims"
  using assms by (simp add: verify_route_def authenticateToken_def)

lemma verify_route_rejected:
  assumes "bearer_token authHeader = Some token" and "jwt_verify P token now = Inl err"
  shows "verify_route P st now authHeader ip = (json_reply 403 False ''Invalid or expired token'', st)"
  using assms by (simp add: verify_route_def authenticateToken_def)

lemma verify_within_lifetime:
  assumes "status (fst (login P st now sessionId req)) = 200"
    and "claim_sessionId claims = sessionId" and "t \<le> now + 3600000"
  shows "status (fst (verify (fst (snd (login P st now sessionId req))) t claims)) = 200"
  using login_creates_session [OF assms(1)] assms(2,3) by (auto simp: verify_status)

text \<open>
  Claim C4, as amended. Verification succeeds exactly when the session is in the session
  store and the current time is not after its \<open>expiresAt\<close> (the instant \<open>expiresAt\<close>
  itself is still accepted, and the time of issue is not consulted). In every other
  case, that is for a session that was removed from the store or whose \<open>expiresAt\<close> has
  passed, it fails with \<open>Session expired\<close>; in particular it fails after logout.
\<close>

theorem verify_succeeds_iff:
  "(status (fst (verify st now claims)) = 200 \<longleftrightarrow>
      (\<exists>session. map_of (activeSessions st) (claim_sessionId claims) = Some session \<and>
         now \<le> expiresAt session)) \<and>
   (status (fst (verify st now claims)) \<noteq> 200 \<longrightarrow>
      fst (verify st now claims) = json_reply 401 False ''Session expired'') \<and>
   fst (verify (fst (snd (logout st claims ip))) now claims) =
     json_reply 401 False ''Session expired''"
  using verify_status [of st now claims] verify_failure [of st now claims]
    verify_after_logout [of st claims ip now]
  by blast

theorem verify_succeeds_iff_witness:
  "status (fst (verify demo_state 1000 demo_claims)) = 200 \<and>
   map_of (activeSessions demo_state) (claim_sessionId demo_claims) = Some demo_session \<and>
   1000 \<le> expiresAt demo_session \<and>
   status (fst (verify demo_state 3600001 demo_claims)) \<noteq> 200 \<and>
   fst (verify demo_state 3600001 demo_claims) = json_reply 401 False ''Session expired'' \<and>
   fst (verify (fst (snd (logout demo_state demo_claims ''10.0.0.1''))) 1000 demo_claims) =
     json_reply 401 False ''Session expired''"
proof -
  have a: "map_of (activeSessions demo_state) (claim_sessionId demo_claims) = Some demo_session"
    by code_simp
  have b: "1000 \<le> expiresAt demo_session"
    by code_simp
  have c: "status (fst (verify demo_state 3600001 demo_claims)) \<noteq> 200"
    by code_simp
  show ?thesis
    using verify_succeeds_iff [of demo_state 1000 demo_claims "''10.0.0.1''"]
      verify_succeeds_iff [of demo_state 3600001 demo_claims "''10.0.0.1''"] a b c
    by blast
qed

text \<open>
  Claim C4 as stated fails: a stored session is still verified at the instant
  \<open>expiresAt\<close>, which is outside the half-open interval.
\<close>

theorem verify_at_expiry_succeeds:
  "map_of (activeSessions demo_state) (claim_sessionId demo_claims) = Some demo_session \<and>
   expiresAt demo_session = 3600000 \<and>
   status (fst (verify demo_state 3600000 demo_claims)) = 200"
  by code_simp

section \<open>Failed logins\<close>




lemma login_inherited_member:
  assumes "users_lookup (users st) (req_username r) = InheritedMember"
    and "recentAttempts (activeSessions st) (req_ip r) < 3"
  shows "login P st now sid r =
           (json_reply 401 False ''Account is disabled'', st,
            [AuditCall ''warning'' ''login_inactive_user''
               [(''username'', JStr (req_username r)), (''clientIP'', JStr (req_ip r))]])"
  using assms by (simp add: login_def Let_def)







end
